theory Spec2Isabelle
  imports Complex_Main "HOL-Library.Multiset"
begin

section \<open>Values, errors and the outside world\<close>

text \<open>
  The loader of \<^verbatim>\<open>Build/build.framework.js\<close> talks to two outside parties: the
  compiled engine, whose functions sit on the configuration object (\<^verbatim>\<open>Module._malloc\<close>,
  \<^verbatim>\<open>Module._SendMessage\<close>, ...), and the hosting page (\<^verbatim>\<open>window\<close>, \<^verbatim>\<open>document\<close>,
  \<^verbatim>\<open>console\<close>). Neither is implemented in the file, so both are parameters of the model.
\<close>

text \<open>A JavaScript number: a double is a real, or one of the three special values. The
  loader never computes with a number, it only hands it on.\<close>

datatype number = Num real | NaN | PosInfinity | NegInfinity

datatype jsval =
    JUndefined
  | JNull
  | JBoolean bool
  | JNumber number
  | JString string
  | JBigInt int
  | JSymbol string
  | JObject nat
  | JFunction nat

text \<open>The \<^verbatim>\<open>typeof\<close> operator.\<close>

fun typeof :: "jsval \<Rightarrow> string" where
  "typeof JUndefined = ''undefined''"
| "typeof JNull = ''object''"
| "typeof (JBoolean b) = ''boolean''"
| "typeof (JNumber x) = ''number''"
| "typeof (JString s) = ''string''"
| "typeof (JBigInt i) = ''bigint''"
| "typeof (JSymbol d) = ''symbol''"
| "typeof (JObject a) = ''object''"
| "typeof (JFunction a) = ''function''"

text \<open>Thrown values. \<open>UnityError\<close> is the class at the end of the file: a message and a
  cause. \<open>Thrown\<close> stands for whatever an outside party throws.\<close>

datatype err =
    Error string
  | TypeError string
  | ReferenceError string
  | UnityError string err
  | Thrown string

type_synonym ptr = nat

text \<open>The calls the loader makes into the engine.\<close>

datatype call =
    LengthBytesUTF8 string
  | Malloc nat
  | StringToUTF8 string ptr nat
  | SendMessage ptr ptr
  | SendMessageString ptr ptr ptr
  | SendMessageFloat ptr ptr number
  | Free ptr
  | FS_mkdir string
  | FS_mount string
  | AddRunDependency string
  | FS_syncfs bool
  | RemoveRunDependency string

text \<open>An event is a call together with how it came back: \<open>Inl\<close> a thrown value,
  \<open>Inr\<close> the returned number (a length, a pointer; 0 where the call returns nothing).
  The engine is any function from the history of events and the next call to its
  outcome, so it may allocate, fail and throw as it likes.\<close>

type_synonym event = "call \<times> (err + nat)"

type_synonym engine = "event list \<Rightarrow> call \<Rightarrow> err + nat"

datatype console_entry =
    ConsoleLog string
  | ConsoleWarn string err
  | ConsoleError string err

record world =
  trace :: "event list"
  console :: "console_entry list"

definition invoke :: "engine \<Rightarrow> call \<Rightarrow> world \<Rightarrow> (err + nat) \<times> world" where
  "invoke eng c w =
     (let r = eng (trace w) c in (r, w\<lparr>trace := trace w @ [(c, r)]\<rparr>))"

section \<open>The message call-in\<close>

text \<open>
  \<^verbatim>\<open>stringToUTF8(str)\<close>: ask the engine for the encoded length, allocate one byte more,
  have the engine encode into the buffer, return the pointer. A throw of any of the
  three engine calls leaves the function at once.
\<close>

definition stringToUTF8 :: "engine \<Rightarrow> string \<Rightarrow> world \<Rightarrow> (err + ptr) \<times> world" where
  "stringToUTF8 eng str w =
     (case invoke eng (LengthBytesUTF8 str) w of
        (Inl e, w1) \<Rightarrow> (Inl e, w1)
      | (Inr n, w1) \<Rightarrow>
          (let len = n + 1 in
           case invoke eng (Malloc len) w1 of
             (Inl e, w2) \<Rightarrow> (Inl e, w2)
           | (Inr p, w2) \<Rightarrow>
               (case invoke eng (StringToUTF8 str p len) w2 of
                  (Inl e, w3) \<Rightarrow> (Inl e, w3)
                | (Inr _, w3) \<Rightarrow> (Inr p, w3))))"

text \<open>
  The body of the \<^verbatim>\<open>try\<close> block of \<^verbatim>\<open>sendMessage\<close>. It returns how the block completed,
  the value of \<^verbatim>\<open>paramPtr\<close> when it was left, and the world.
\<close>

fun try_block :: "engine \<Rightarrow> ptr \<Rightarrow> ptr \<Rightarrow> jsval \<Rightarrow> world \<Rightarrow> (err + unit) \<times> ptr \<times> world" where
  "try_block eng objPtr funcPtr JUndefined w =
     (case invoke eng (SendMessage objPtr funcPtr) w of
        (Inl e, w1) \<Rightarrow> (Inl e, 0, w1)
      | (Inr _, w1) \<Rightarrow> (Inr (), 0, w1))"
| "try_block eng objPtr funcPtr (JString s) w =
     (case stringToUTF8 eng s w of
        (Inl e, w1) \<Rightarrow> (Inl e, 0, w1)
      | (Inr paramPtr, w1) \<Rightarrow>
          (case invoke eng (SendMessageString objPtr funcPtr paramPtr) w1 of
             (Inl e, w2) \<Rightarrow> (Inl e, paramPtr, w2)
           | (Inr _, w2) \<Rightarrow> (Inr (), paramPtr, w2)))"
| "try_block eng objPtr funcPtr (JNumber x) w =
     (case invoke eng (SendMessageFloat objPtr funcPtr x) w of
        (Inl e, w1) \<Rightarrow> (Inl e, 0, w1)
      | (Inr _, w1) \<Rightarrow> (Inr (), 0, w1))"
| "try_block eng objPtr funcPtr param w =
     (Inl (Error (''Unsupported parameter type: '' @ typeof param)), 0, w)"

text \<open>The \<^verbatim>\<open>finally\<close> block: three frees in a row; a throwing free skips the rest.\<close>

definition finally_block :: "engine \<Rightarrow> ptr \<Rightarrow> ptr \<Rightarrow> ptr \<Rightarrow> world \<Rightarrow> (err + unit) \<times> world" where
  "finally_block eng paramPtr objPtr funcPtr w =
     (case invoke eng (Free paramPtr) w of
        (Inl e, w1) \<Rightarrow> (Inl e, w1)
      | (Inr _, w1) \<Rightarrow>
          (case invoke eng (Free objPtr) w1 of
             (Inl e, w2) \<Rightarrow> (Inl e, w2)
           | (Inr _, w2) \<Rightarrow>
               (case invoke eng (Free funcPtr) w2 of
                  (Inl e, w3) \<Rightarrow> (Inl e, w3)
                | (Inr _, w3) \<Rightarrow> (Inr (), w3))))"

text \<open>
  \<^verbatim>\<open>sendMessage(gameObject, func, param)\<close>. The method name is marshalled first, then
  the target, both before the \<^verbatim>\<open>try\<close>. When the \<^verbatim>\<open>finally\<close> block completes normally the
  call completes as the \<^verbatim>\<open>try\<close> block did; when it throws, its own error wins.
\<close>

definition sendMessage :: "engine \<Rightarrow> string \<Rightarrow> string \<Rightarrow> jsval \<Rightarrow> world \<Rightarrow> (err + unit) \<times> world" where
  "sendMessage eng gameObject func param w =
     (case stringToUTF8 eng func w of
        (Inl e, w1) \<Rightarrow> (Inl e, w1)
      | (Inr funcPtr, w1) \<Rightarrow>
          (case stringToUTF8 eng gameObject w1 of
             (Inl e, w2) \<Rightarrow> (Inl e, w2)
           | (Inr objPtr, w2) \<Rightarrow>
               (case try_block eng objPtr funcPtr param w2 of
                  (completion, paramPtr, w3) \<Rightarrow>
                    (case finally_block eng paramPtr objPtr funcPtr w3 of
                       (Inl e, w4) \<Rightarrow> (Inl e, w4)
                     | (Inr _, w4) \<Rightarrow> (completion, w4)))))"

section \<open>Reading a trace\<close>

text \<open>The three engine entry points, the marshalling primitives, and the free primitive.\<close>

fun is_entry :: "call \<Rightarrow> bool" where
  "is_entry (SendMessage p q) = True"
| "is_entry (SendMessageString p q a) = True"
| "is_entry (SendMessageFloat p q x) = True"
| "is_entry c = False"

fun is_marshal :: "call \<Rightarrow> bool" where
  "is_marshal (LengthBytesUTF8 s) = True"
| "is_marshal (Malloc n) = True"
| "is_marshal (StringToUTF8 s p n) = True"
| "is_marshal c = False"

fun is_free :: "call \<Rightarrow> bool" where
  "is_free (Free p) = True"
| "is_free c = False"

fun is_run_dependency :: "call \<Rightarrow> bool" where
  "is_run_dependency (AddRunDependency t) = True"
| "is_run_dependency (RemoveRunDependency t) = True"
| "is_run_dependency c = False"

fun returned :: "event \<Rightarrow> bool" where
  "returned (c, Inr v) = True"
| "returned (c, Inl e) = False"

text \<open>The entry-point calls of a trace, in order.\<close>

definition entry_calls :: "event list \<Rightarrow> call list" where
  "entry_calls tr = filter is_entry (map fst tr)"

text \<open>The pointers \<^verbatim>\<open>_malloc\<close> returned, the pointers handed to \<^verbatim>\<open>_free\<close>, and the
  (string, destination) pairs handed to the encoder, each in order.\<close>

fun alloc_of :: "event \<Rightarrow> ptr list" where
  "alloc_of (Malloc n, Inr p) = [p]"
| "alloc_of ev = []"

definition allocated :: "event list \<Rightarrow> ptr list" where
  "allocated tr = concat (map alloc_of tr)"

fun free_of :: "event \<Rightarrow> ptr list" where
  "free_of (Free p, r) = [p]"
| "free_of ev = []"

definition freed :: "event list \<Rightarrow> ptr list" where
  "freed tr = concat (map free_of tr)"

fun encode_of :: "event \<Rightarrow> (string \<times> ptr) list" where
  "encode_of (StringToUTF8 s p n, r) = [(s, p)]"
| "encode_of ev = []"

definition encoded :: "event list \<Rightarrow> (string \<times> ptr) list" where
  "encoded tr = concat (map encode_of tr)"

definition run_dependency_calls :: "event list \<Rightarrow> call list" where
  "run_dependency_calls tr = filter is_run_dependency (map fst tr)"

text \<open>No marshalling primitive threw in the trace; no free threw in the trace.\<close>

definition marshalling_returns :: "event list \<Rightarrow> bool" where
  "marshalling_returns tr = list_all (\<lambda>ev. is_marshal (fst ev) \<longrightarrow> returned ev) tr"

definition frees_return :: "event list \<Rightarrow> bool" where
  "frees_return tr = list_all (\<lambda>ev. is_free (fst ev) \<longrightarrow> returned ev) tr"

text \<open>The calls of \<^verbatim>\<open>_free\<close> in a trace, each with its outcome.\<close>

definition free_events :: "event list \<Rightarrow> event list" where
  "free_events tr = filter (\<lambda>ev. is_free (fst ev)) tr"

text \<open>The events a run added: what the trace of \<open>w'\<close> has beyond that of \<open>w\<close>.\<close>

definition new_events :: "world \<Rightarrow> world \<Rightarrow> event list" where
  "new_events w w' = drop (length (trace w)) (trace w')"

text \<open>The bytes of a buffer of \<open>len\<close> bytes at \<open>p\<close>.\<close>

definition buffer :: "ptr \<Rightarrow> nat \<Rightarrow> nat set" where
  "buffer p len = {p ..< p + len}"

section \<open>The hosting environment\<close>

text \<open>
  The globals the loader reads. \<open>window\<close> and \<open>document\<close> are \<open>None\<close> where the global
  does not exist. A constructor is what \<^verbatim>\<open>new\<close> does with it: it throws (\<open>Inl\<close>) or yields
  an audio context, named by a number (\<open>Inr\<close>). \<open>currentScript\<close> is the \<^verbatim>\<open>src\<close> of the
  running script element, \<open>None\<close> where \<^verbatim>\<open>document.currentScript\<close> is null.
  \<open>importScripts\<close> says whether \<^verbatim>\<open>typeof importScripts\<close> is \<^verbatim>\<open>"function"\<close>, \<open>node_version\<close>
  is \<^verbatim>\<open>process.versions.node\<close> where that is a string, and \<open>filename\<close> is the binding
  \<^verbatim>\<open>__filename\<close> where there is one.
\<close>

type_synonym audio_ctor = "err + nat"

record window_obj =
  AudioContext :: "audio_ctor option"
  webkitAudioContext :: "audio_ctor option"

record document_obj =
  currentScript :: "string option"

record host =
  window :: "window_obj option"
  document :: "document_obj option"
  importScripts :: bool
  node_version :: "string option"
  filename :: "string option"

section \<open>The loader\<close>

record environment =
  isWeb :: bool
  isWorker :: bool
  isNode :: bool

text \<open>
  The configuration object. A field is \<open>None\<close> while the object has no such property.
  Functions stored on it are named by tags: the two bound console sinks, the resolve and
  reject functions of the \<^verbatim>\<open>ready\<close> promise, the closure pushed on \<^verbatim>\<open>preRun\<close>, and the
  pair of WebGL functions.
\<close>

datatype promise = Pending | Fulfilled | Rejected err

datatype sink = ConsoleLogSink | ConsoleWarnSink

datatype settler = ResolveReady | RejectReady

datatype hook = FileSystemMountHook

datatype gl_utils = GLUtils

record webaudio =
  audioContext :: nat
  audioInstances :: "(nat \<times> nat) list"

record module =
  ready :: "promise option"
  readyPromiseResolve :: "settler option"
  readyPromiseReject :: "settler option"
  print :: "sink option"
  printErr :: "sink option"
  preRun :: "hook list option"
  postRun :: "hook list option"
  scriptDirectory :: "string option"
  GL :: "gl_utils option"
  WEBAudio :: "webaudio option"
  ctx :: "nat option"

text \<open>The object literal \<^verbatim>\<open>{}\<close>.\<close>

definition empty_module :: module where
  "empty_module =
     \<lparr>ready = None, readyPromiseResolve = None, readyPromiseReject = None,
      print = None, printErr = None, preRun = None, postRun = None,
      scriptDirectory = None, GL = None, WEBAudio = None, ctx = None\<rparr>"

record framework =
  Module :: module
  isReady :: bool
  environment :: environment

definition detectEnvironment :: "host \<Rightarrow> environment" where
  "detectEnvironment h =
     \<lparr>isWeb = (window h \<noteq> None),
      isWorker = importScripts h,
      isNode = (node_version h \<noteq> None)\<rparr>"

text \<open>\<^verbatim>\<open>getScriptDirectory\<close>. Reading \<^verbatim>\<open>__filename\<close> where it is not bound throws.\<close>

definition getScriptDirectory :: "host \<Rightarrow> framework \<Rightarrow> err + string" where
  "getScriptDirectory h this =
     (case (if isWeb (environment this)
            then (case document h of None \<Rightarrow> None | Some d \<Rightarrow> currentScript d)
            else None) of
        Some src \<Rightarrow> Inr src
      | None \<Rightarrow>
          (if isNode (environment this)
           then (case filename h of
                   None \<Rightarrow> Inl (ReferenceError ''__filename is not defined'')
                 | Some f \<Rightarrow> Inr f)
           else Inr []))"

text \<open>
  \<^verbatim>\<open>createModule\<close>. The executor of the new promise runs at once and stores the two
  settle functions on \<^verbatim>\<open>this.Module\<close>, which at that moment is still the object that
  \<^verbatim>\<open>this.Module\<close> held before: the new object is only returned. So the function gives
  back the new object and the loader with its old object written to.
\<close>

definition createModule :: "string \<Rightarrow> framework \<Rightarrow> module \<times> framework" where
  "createModule dir this =
     (let this1 = this\<lparr>Module := (Module this)\<lparr>readyPromiseResolve := Some ResolveReady,
                                               readyPromiseReject := Some RejectReady\<rparr>\<rparr>;
          m = empty_module\<lparr>ready := Some Pending,
                           print := Some ConsoleLogSink,
                           printErr := Some ConsoleWarnSink,
                           preRun := Some [],
                           postRun := Some [],
                           scriptDirectory := Some dir\<rparr>
      in (m, this1))"

text \<open>\<^verbatim>\<open>setupFilesystem\<close>: outside a worker, push the mount hook on \<^verbatim>\<open>Module.preRun\<close>.
  Pushing on a missing list throws.\<close>

definition setupFilesystem :: "framework \<Rightarrow> err + framework" where
  "setupFilesystem this =
     (if \<not> isWorker (environment this)
      then (case preRun (Module this) of
              None \<Rightarrow> Inl (TypeError ''Cannot read properties of undefined (reading push)'')
            | Some hooks \<Rightarrow>
                Inr (this\<lparr>Module := (Module this)\<lparr>preRun := Some (hooks @ [FileSystemMountHook])\<rparr>\<rparr>))
      else Inr this)"

text \<open>\<^verbatim>\<open>setupWebGL\<close> stores the two WebGL functions; it calls neither.\<close>

definition setupWebGL :: "framework \<Rightarrow> framework" where
  "setupWebGL this = this\<lparr>Module := (Module this)\<lparr>GL := Some GLUtils\<rparr>\<rparr>"

text \<open>The stored \<^verbatim>\<open>createContext(canvas, attributes)\<close>. A canvas is its \<^verbatim>\<open>getContext\<close>: from
  the context kind and the attributes to a context, \<open>None\<close> for a falsy result.\<close>

type_synonym 'a canvas = "string \<Rightarrow> 'a \<Rightarrow> nat option"

definition createContext :: "'a canvas \<Rightarrow> 'a \<Rightarrow> err + nat" where
  "createContext canvas attributes =
     (case canvas ''webgl'' attributes of
        None \<Rightarrow> Inl (Error ''WebGL context creation failed'')
      | Some c \<Rightarrow> Inr c)"

text \<open>The stored \<^verbatim>\<open>makeContextCurrent(ctx)\<close>.\<close>

definition makeContextCurrent :: "nat \<Rightarrow> framework \<Rightarrow> framework" where
  "makeContextCurrent c this = this\<lparr>Module := (Module this)\<lparr>ctx := Some c\<rparr>\<rparr>"

text \<open>
  \<^verbatim>\<open>setupAudio\<close>: \<^verbatim>\<open>new (window.AudioContext || window.webkitAudioContext)()\<close>. Reading
  \<^verbatim>\<open>window\<close> where there is none throws, and so does \<^verbatim>\<open>new\<close> on \<^verbatim>\<open>undefined\<close>.
\<close>

definition setupAudio :: "host \<Rightarrow> framework \<Rightarrow> world \<Rightarrow> (err + unit) \<times> framework \<times> world" where
  "setupAudio h this w =
     (case window h of
        None \<Rightarrow> (Inl (ReferenceError ''window is not defined''), this, w)
      | Some win \<Rightarrow>
          (case (case AudioContext win of Some c \<Rightarrow> Some c | None \<Rightarrow> webkitAudioContext win) of
             None \<Rightarrow> (Inl (TypeError ''(intermediate value) is not a constructor''), this, w)
           | Some (Inl e) \<Rightarrow> (Inl e, this, w)
           | Some (Inr a) \<Rightarrow>
               (Inr (),
                this\<lparr>Module := (Module this)\<lparr>WEBAudio :=
                        Some \<lparr>audioContext = a, audioInstances = []\<rparr>\<rparr>\<rparr>,
                w\<lparr>console := console w @ [ConsoleLog ''Web Audio initialized.'']\<rparr>)))"

text \<open>The \<^verbatim>\<open>try\<close> block of \<^verbatim>\<open>initialize\<close>: the five steps in order, left at the first throw.\<close>

definition initialize_steps :: "host \<Rightarrow> framework \<Rightarrow> world \<Rightarrow> (err + unit) \<times> framework \<times> world" where
  "initialize_steps h this w =
     (case getScriptDirectory h this of
        Inl e \<Rightarrow> (Inl e, this, w)
      | Inr scriptDir \<Rightarrow>
          (case createModule scriptDir this of
             (m, this1) \<Rightarrow>
               (let this2 = this1\<lparr>Module := m\<rparr> in
                case setupFilesystem this2 of
                  Inl e \<Rightarrow> (Inl e, this2, w)
                | Inr this3 \<Rightarrow>
                    (case setupAudio h (setupWebGL this3) w of
                       (Inl e, this5, w5) \<Rightarrow> (Inl e, this5, w5)
                     | (Inr _, this5, w5) \<Rightarrow>
                         (Inr (), this5\<lparr>isReady := True\<rparr>,
                          w5\<lparr>console := console w5 @
                               [ConsoleLog ''Unity Framework initialized successfully.'']\<rparr>)))))"

text \<open>
  \<^verbatim>\<open>initialize\<close>. The result is how the promise of the async function settles: \<open>Inr\<close>
  fulfilled, \<open>Inl\<close> rejected with the thrown value. Every \<^verbatim>\<open>await\<close> of the body waits
  for a value that is already there, so the steps run in their order.
\<close>

definition initialize :: "host \<Rightarrow> framework \<Rightarrow> world \<Rightarrow> (err + unit) \<times> framework \<times> world" where
  "initialize h this w =
     (case initialize_steps h this w of
        (Inl e, this', w') \<Rightarrow>
          (Inl (UnityError ''Initialization failed'' e), this',
           w'\<lparr>console := console w' @ [ConsoleError ''Failed to initialize Unity Framework:'' e]\<rparr>)
      | (Inr u, this', w') \<Rightarrow> (Inr u, this', w'))"

text \<open>The state in which the promise of \<^verbatim>\<open>initialize()\<close> ends.\<close>

fun settled :: "err + unit \<Rightarrow> promise" where
  "settled (Inr u) = Fulfilled"
| "settled (Inl e) = Rejected e"

text \<open>The constructor: the fields are set, then \<^verbatim>\<open>initialize()\<close> is started on them.\<close>

definition fresh :: "host \<Rightarrow> framework" where
  "fresh h = \<lparr>Module = empty_module, isReady = False, environment = detectEnvironment h\<rparr>"

definition constructor :: "host \<Rightarrow> world \<Rightarrow> (err + unit) \<times> framework \<times> world" where
  "constructor h w = initialize h (fresh h) w"

section \<open>The filesystem mount hook\<close>

text \<open>
  The closure on \<^verbatim>\<open>preRun\<close>, as the engine runs it: make the mount point, mount the
  persistent store, register the run dependency, start the sync. The callback handed to
  \<^verbatim>\<open>FS.syncfs\<close> is \<open>syncfs_callback\<close>; the engine calls it with the outcome of the sync,
  \<open>None\<close> for a falsy \<^verbatim>\<open>err\<close>.
\<close>

definition run_hook :: "engine \<Rightarrow> hook \<Rightarrow> world \<Rightarrow> (err + unit) \<times> world" where
  "run_hook eng k w =
     (case invoke eng (FS_mkdir ''/idbfs'') w of
        (Inl e, w1) \<Rightarrow> (Inl e, w1)
      | (Inr _, w1) \<Rightarrow>
          (case invoke eng (FS_mount ''/idbfs'') w1 of
             (Inl e, w2) \<Rightarrow> (Inl e, w2)
           | (Inr _, w2) \<Rightarrow>
               (case invoke eng (AddRunDependency ''JS_FileSystem_Mount'') w2 of
                  (Inl e, w3) \<Rightarrow> (Inl e, w3)
                | (Inr _, w3) \<Rightarrow>
                    (case invoke eng (FS_syncfs True) w3 of
                       (Inl e, w4) \<Rightarrow> (Inl e, w4)
                     | (Inr _, w4) \<Rightarrow> (Inr (), w4)))))"

definition syncfs_callback :: "engine \<Rightarrow> err option \<Rightarrow> world \<Rightarrow> (err + unit) \<times> world" where
  "syncfs_callback eng outcome w =
     (let w1 = (case outcome of
                  None \<Rightarrow> w
                | Some e \<Rightarrow> w\<lparr>console := console w @ [ConsoleWarn ''IndexedDB unavailable:'' e]\<rparr>)
      in case invoke eng (RemoveRunDependency ''JS_FileSystem_Mount'') w1 of
           (Inl e, w2) \<Rightarrow> (Inl e, w2)
         | (Inr _, w2) \<Rightarrow> (Inr (), w2))"

section \<open>Sample engines, hosts and canvases\<close>

definition w0 :: world where
  "w0 = \<lparr>trace = [], console = []\<rparr>"

text \<open>An engine that never throws: a string is as long as its characters, and the
  allocator hands out 8, 16, 24, ...\<close>

definition bump_engine :: engine where
  "bump_engine h c =
     (case c of
        LengthBytesUTF8 s \<Rightarrow> Inr (length s)
      | Malloc n \<Rightarrow> Inr (8 * Suc (length (allocated h)))
      | _ \<Rightarrow> Inr 0)"

text \<open>The same engine with entry points that throw.\<close>

definition trapping_engine :: engine where
  "trapping_engine h c =
     (if is_entry c then Inl (Thrown ''RuntimeError: unreachable'') else bump_engine h c)"

text \<open>The same engine with a heap for one buffer: the second allocation aborts.\<close>

definition small_heap_engine :: engine where
  "small_heap_engine h c =
     (case c of
        Malloc n \<Rightarrow>
          (if allocated h = [] then Inr 8 else Inl (Thrown ''RuntimeError: Aborted(OOM)''))
      | _ \<Rightarrow> bump_engine h c)"

text \<open>The same engine with a heap for two buffers: the third allocation aborts.\<close>

definition two_buffer_engine :: engine where
  "two_buffer_engine h c =
     (case c of
        Malloc n \<Rightarrow>
          (if length (allocated h) < 2 then Inr (8 * Suc (length (allocated h)))
           else Inl (Thrown ''RuntimeError: Aborted(OOM)''))
      | _ \<Rightarrow> bump_engine h c)"

text \<open>The engine that never throws, but for an allocator that traps when it is handed
  the null pointer.\<close>

definition strict_free_engine :: engine where
  "strict_free_engine h c =
     (case c of
        Free p \<Rightarrow> (if p = 0 then Inl (Thrown ''RuntimeError: free(0)'') else Inr 0)
      | _ \<Rightarrow> bump_engine h c)"

text \<open>A page with an audio context, a worker, a page whose audio context cannot be
  built, and a host with none of the globals.\<close>

definition page_host :: host where
  "page_host =
     \<lparr>window = Some \<lparr>AudioContext = Some (Inr 1), webkitAudioContext = None\<rparr>,
      document = Some \<lparr>currentScript = Some ''Build/build.framework.js''\<rparr>,
      importScripts = False, node_version = None, filename = None\<rparr>"

definition worker_host :: host where
  "worker_host =
     \<lparr>window = None, document = None,
      importScripts = True, node_version = None, filename = None\<rparr>"

definition mute_page_host :: host where
  "mute_page_host =
     \<lparr>window = Some \<lparr>AudioContext = Some (Inl (Thrown ''NotSupportedError'')),
                     webkitAudioContext = None\<rparr>,
      document = Some \<lparr>currentScript = None\<rparr>,
      importScripts = False, node_version = None, filename = None\<rparr>"

definition bare_host :: host where
  "bare_host =
     \<lparr>window = None, document = None,
      importScripts = False, node_version = None, filename = None\<rparr>"

text \<open>A canvas that gives no context, and one that gives context 7 for \<^verbatim>\<open>"webgl"\<close>.\<close>

definition dead_canvas :: "unit canvas" where
  "dead_canvas kind attributes = None"

definition live_canvas :: "unit canvas" where
  "live_canvas kind attributes = (if kind = ''webgl'' then Some 7 else None)"

section \<open>Facts shared by the proofs\<close>

lemmas trace_defs = entry_calls_def allocated_def freed_def encoded_def free_events_def
  marshalling_returns_def frees_return_def run_dependency_calls_def new_events_def

lemmas call_in_defs = sendMessage_def stringToUTF8_def finally_block_def invoke_def Let_def

lemmas engine_defs = bump_engine_def trapping_engine_def small_heap_engine_def
  two_buffer_engine_def strict_free_engine_def w0_def allocated_def

lemmas loader_defs = initialize_def initialize_steps_def createModule_def setupFilesystem_def
  setupWebGL_def setupAudio_def empty_module_def Let_def

lemmas host_defs = page_host_def worker_host_def mute_page_host_def bare_host_def w0_def
  constructor_def fresh_def detectEnvironment_def getScriptDirectory_def

text \<open>The marshalling helper only adds events to the trace, none of them an entry-point
  call or a free, and leaves the console alone.\<close>

lemma stringToUTF8_run:
  assumes "stringToUTF8 eng str w = (r, w')"
  shows "trace w' = trace w @ new_events w w' \<and> console w' = console w \<and>
         entry_calls (new_events w w') = [] \<and> freed (new_events w w') = []"
  using assms by (auto simp: call_in_defs trace_defs split: sum.splits)

section \<open>Sample runs\<close>

lemma w0_simps: "trace w0 = []" "console w0 = []"
  by (simp_all add: w0_def)

lemma triple: "x = (fst x, fst (snd x), snd (snd x))"
  by simp

text \<open>\<^verbatim>\<open>sendMessage("Player", "SetScore", 42)\<close> on the engine that never throws.\<close>

lemma run_number:
  "sendMessage bump_engine ''Player'' ''SetScore'' (JNumber (Num 42)) w0 =
     (Inr (),
      \<lparr>trace =
         [(LengthBytesUTF8 ''SetScore'', Inr 8), (Malloc 9, Inr 8),
          (StringToUTF8 ''SetScore'' 8 9, Inr 0),
          (LengthBytesUTF8 ''Player'', Inr 6), (Malloc 7, Inr 16),
          (StringToUTF8 ''Player'' 16 7, Inr 0),
          (SendMessageFloat 16 8 (Num 42), Inr 0),
          (Free 0, Inr 0), (Free 16, Inr 0), (Free 8, Inr 0)],
       console = []\<rparr>)"
  by (simp add: call_in_defs engine_defs)


text \<open>A string argument on the engine whose entry points throw.\<close>

lemma run_string_trapped:
  "sendMessage trapping_engine ''Player'' ''SetName'' (JString ''hi'') w0 =
     (Inl (Thrown ''RuntimeError: unreachable''),
      \<lparr>trace =
         [(LengthBytesUTF8 ''SetName'', Inr 7), (Malloc 8, Inr 8),
          (StringToUTF8 ''SetName'' 8 8, Inr 0),
          (LengthBytesUTF8 ''Player'', Inr 6), (Malloc 7, Inr 16),
          (StringToUTF8 ''Player'' 16 7, Inr 0),
          (LengthBytesUTF8 ''hi'', Inr 2), (Malloc 3, Inr 24),
          (StringToUTF8 ''hi'' 24 3, Inr 0),
          (SendMessageString 16 8 24, Inl (Thrown ''RuntimeError: unreachable'')),
          (Free 24, Inr 0), (Free 16, Inr 0), (Free 8, Inr 0)],
       console = []\<rparr>)"
  by (simp add: call_in_defs engine_defs)

text \<open>The engine with the small heap: the allocation for the target throws.\<close>

lemma run_out_of_memory:
  "sendMessage small_heap_engine ''Player'' ''SetScore'' JUndefined w0 =
     (Inl (Thrown ''RuntimeError: Aborted(OOM)''),
      \<lparr>trace =
         [(LengthBytesUTF8 ''SetScore'', Inr 8), (Malloc 9, Inr 8),
          (StringToUTF8 ''SetScore'' 8 9, Inr 0),
          (LengthBytesUTF8 ''Player'', Inr 6),
          (Malloc 7, Inl (Thrown ''RuntimeError: Aborted(OOM)''))],
       console = []\<rparr>)"
  by (simp add: call_in_defs engine_defs)

lemma run_boolean:
  "sendMessage bump_engine ''Player'' ''SetScore'' (JBoolean True) w0 =
     (Inl (Error ''Unsupported parameter type: boolean''),
      \<lparr>trace =
         [(LengthBytesUTF8 ''SetScore'', Inr 8), (Malloc 9, Inr 8),
          (StringToUTF8 ''SetScore'' 8 9, Inr 0),
          (LengthBytesUTF8 ''Player'', Inr 6), (Malloc 7, Inr 16),
          (StringToUTF8 ''Player'' 16 7, Inr 0),
          (Free 0, Inr 0), (Free 16, Inr 0), (Free 8, Inr 0)],
       console = []\<rparr>)"
  by (simp add: call_in_defs engine_defs)

text \<open>Runs in which an allocation aborts or the free of the null pointer traps.\<close>

lemma run_number_out_of_memory:
  "sendMessage small_heap_engine ''Player'' ''SetScore'' (JNumber (Num 42)) w0 =
     (Inl (Thrown ''RuntimeError: Aborted(OOM)''),
      \<lparr>trace =
         [(LengthBytesUTF8 ''SetScore'', Inr 8), (Malloc 9, Inr 8),
          (StringToUTF8 ''SetScore'' 8 9, Inr 0),
          (LengthBytesUTF8 ''Player'', Inr 6),
          (Malloc 7, Inl (Thrown ''RuntimeError: Aborted(OOM)''))],
       console = []\<rparr>)"
  by (simp add: call_in_defs engine_defs)

lemma run_boolean_out_of_memory:
  "sendMessage small_heap_engine ''Player'' ''SetScore'' (JBoolean True) w0 =
     (Inl (Thrown ''RuntimeError: Aborted(OOM)''),
      \<lparr>trace =
         [(LengthBytesUTF8 ''SetScore'', Inr 8), (Malloc 9, Inr 8),
          (StringToUTF8 ''SetScore'' 8 9, Inr 0),
          (LengthBytesUTF8 ''Player'', Inr 6),
          (Malloc 7, Inl (Thrown ''RuntimeError: Aborted(OOM)''))],
       console = []\<rparr>)"
  by (simp add: call_in_defs engine_defs)

lemma run_boolean_strict_free:
  "sendMessage strict_free_engine ''Player'' ''SetScore'' (JBoolean True) w0 =
     (Inl (Thrown ''RuntimeError: free(0)''),
      \<lparr>trace =
         [(LengthBytesUTF8 ''SetScore'', Inr 8), (Malloc 9, Inr 8),
          (StringToUTF8 ''SetScore'' 8 9, Inr 0),
          (LengthBytesUTF8 ''Player'', Inr 6), (Malloc 7, Inr 16),
          (StringToUTF8 ''Player'' 16 7, Inr 0),
          (Free 0, Inl (Thrown ''RuntimeError: free(0)''))],
       console = []\<rparr>)"
  by (simp add: call_in_defs engine_defs)


lemma run_string_out_of_memory:
  "sendMessage two_buffer_engine ''Player'' ''SetName'' (JString ''hi'') w0 =
     (Inl (Thrown ''RuntimeError: Aborted(OOM)''),
      \<lparr>trace =
         [(LengthBytesUTF8 ''SetName'', Inr 7), (Malloc 8, Inr 8),
          (StringToUTF8 ''SetName'' 8 8, Inr 0),
          (LengthBytesUTF8 ''Player'', Inr 6), (Malloc 7, Inr 16),
          (StringToUTF8 ''Player'' 16 7, Inr 0),
          (LengthBytesUTF8 ''hi'', Inr 2),
          (Malloc 3, Inl (Thrown ''RuntimeError: Aborted(OOM)'')),
          (Free 0, Inr 0), (Free 16, Inr 0), (Free 8, Inr 0)],
       console = []\<rparr>)"
  by (simp add: call_in_defs engine_defs)

text \<open>The constructor on the four sample hosts.\<close>

lemma construct_page:
  "constructor page_host w0 =
     (Inr (),
      \<lparr>Module =
         \<lparr>ready = Some Pending, readyPromiseResolve = None, readyPromiseReject = None,
          print = Some ConsoleLogSink, printErr = Some ConsoleWarnSink,
          preRun = Some [FileSystemMountHook], postRun = Some [],
          scriptDirectory = Some ''Build/build.framework.js'', GL = Some GLUtils,
          WEBAudio = Some \<lparr>audioContext = 1, audioInstances = []\<rparr>, ctx = None\<rparr>,
       isReady = True,
       environment = \<lparr>isWeb = True, isWorker = False, isNode = False\<rparr>\<rparr>,
      \<lparr>trace = [],
       console = [ConsoleLog ''Web Audio initialized.'',
                  ConsoleLog ''Unity Framework initialized successfully.'']\<rparr>)"
  by (simp add: host_defs loader_defs)

lemma construct_mute_page:
  "constructor mute_page_host w0 =
     (Inl (UnityError ''Initialization failed'' (Thrown ''NotSupportedError'')),
      \<lparr>Module =
         \<lparr>ready = Some Pending, readyPromiseResolve = None, readyPromiseReject = None,
          print = Some ConsoleLogSink, printErr = Some ConsoleWarnSink,
          preRun = Some [FileSystemMountHook], postRun = Some [],
          scriptDirectory = Some [], GL = Some GLUtils, WEBAudio = None, ctx = None\<rparr>,
       isReady = False,
       environment = \<lparr>isWeb = True, isWorker = False, isNode = False\<rparr>\<rparr>,
      \<lparr>trace = [],
       console = [ConsoleError ''Failed to initialize Unity Framework:''
                    (Thrown ''NotSupportedError'')]\<rparr>)"
  by (simp add: host_defs loader_defs)

lemma construct_worker:
  "constructor worker_host w0 =
     (Inl (UnityError ''Initialization failed'' (ReferenceError ''window is not defined'')),
      \<lparr>Module =
         \<lparr>ready = Some Pending, readyPromiseResolve = None, readyPromiseReject = None,
          print = Some ConsoleLogSink, printErr = Some ConsoleWarnSink,
          preRun = Some [], postRun = Some [],
          scriptDirectory = Some [], GL = Some GLUtils, WEBAudio = None, ctx = None\<rparr>,
       isReady = False,
       environment = \<lparr>isWeb = False, isWorker = True, isNode = False\<rparr>\<rparr>,
      \<lparr>trace = [],
       console = [ConsoleError ''Failed to initialize Unity Framework:''
                    (ReferenceError ''window is not defined'')]\<rparr>)"
  by (simp add: host_defs loader_defs)

lemma construct_bare:
  "constructor bare_host w0 =
     (Inl (UnityError ''Initialization failed'' (ReferenceError ''window is not defined'')),
      \<lparr>Module =
         \<lparr>ready = Some Pending, readyPromiseResolve = None, readyPromiseReject = None,
          print = Some ConsoleLogSink, printErr = Some ConsoleWarnSink,
          preRun = Some [FileSystemMountHook], postRun = Some [],
          scriptDirectory = Some [], GL = Some GLUtils, WEBAudio = None, ctx = None\<rparr>,
       isReady = False,
       environment = \<lparr>isWeb = False, isWorker = False, isNode = False\<rparr>\<rparr>,
      \<lparr>trace = [],
       console = [ConsoleError ''Failed to initialize Unity Framework:''
                    (ReferenceError ''window is not defined'')]\<rparr>)"
  by (simp add: host_defs loader_defs)

text \<open>The mount hook on the engine that never throws.\<close>

lemma hook_run:
  "run_hook bump_engine FileSystemMountHook w0 =
     (Inr (),
      \<lparr>trace = [(FS_mkdir ''/idbfs'', Inr 0), (FS_mount ''/idbfs'', Inr 0),
                (AddRunDependency ''JS_FileSystem_Mount'', Inr 0), (FS_syncfs True, Inr 0)],
       console = []\<rparr>)"
  by (simp add: run_hook_def invoke_def Let_def engine_defs)

section \<open>The marshalling helper\<close>

text \<open>
  Claim C10. For every string, the helper asks \<^verbatim>\<open>_malloc\<close> for the length the engine
  reported plus one, and hands the encoder the pointer it got and that same number of
  bytes as its budget. A run of the helper has one of three shapes: the length call
  throws; the allocation throws; or the three calls follow each other, the allocation
  of \<open>n + 1\<close> bytes returning \<open>q\<close> and the encoder called with \<open>q\<close> and \<open>n + 1\<close>.
  In the last shape the byte at offset \<open>n\<close>, where the terminator goes after \<open>n\<close> encoded
  bytes, lies inside the buffer of \<open>n + 1\<close> bytes at \<open>q\<close>, which is also all the
  encoder may write.
\<close>

theorem stringToUTF8_allocates_length_plus_one:
  assumes "stringToUTF8 eng str w = (r, w')"
  shows "(\<exists>e. new_events w w' = [(LengthBytesUTF8 str, Inl e)] \<and> r = Inl e) \<or>
         (\<exists>n e. new_events w w' = [(LengthBytesUTF8 str, Inr n), (Malloc (n + 1), Inl e)] \<and>
                r = Inl e) \<or>
         (\<exists>n q res.
            new_events w w' =
              [(LengthBytesUTF8 str, Inr n), (Malloc (n + 1), Inr q),
               (StringToUTF8 str q (n + 1), res)] \<and>
            r = (case res of Inl e \<Rightarrow> Inl e | Inr v \<Rightarrow> Inr q) \<and>
            q + n \<in> buffer q (n + 1))"
proof (cases "eng (trace w) (LengthBytesUTF8 str)")
  case (Inl e)
  with assms have "r = Inl e" and "new_events w w' = [(LengthBytesUTF8 str, Inl e)]"
    by (auto simp: call_in_defs new_events_def)
  then show ?thesis by simp
next
  case len: (Inr n)
  show ?thesis
  proof (cases "eng (trace w @ [(LengthBytesUTF8 str, Inr n)]) (Malloc (n + 1))")
    case (Inl e)
    with assms len
    have "r = Inl e"
      and "new_events w w' = [(LengthBytesUTF8 str, Inr n), (Malloc (n + 1), Inl e)]"
      by (auto simp: call_in_defs new_events_def)
    then show ?thesis by simp
  next
    case (Inr q)
    let ?res = "eng (trace w @ [(LengthBytesUTF8 str, Inr n), (Malloc (n + 1), Inr q)])
                  (StringToUTF8 str q (n + 1))"
    from assms len Inr
    have "new_events w w' =
            [(LengthBytesUTF8 str, Inr n), (Malloc (n + 1), Inr q),
             (StringToUTF8 str q (n + 1), ?res)]"
      and "r = (case ?res of Inl e \<Rightarrow> Inl e | Inr v \<Rightarrow> Inr q)"
      by (auto simp: call_in_defs new_events_def split: sum.splits)
    moreover have "q + n \<in> buffer q (n + 1)"
      by (simp add: buffer_def)
    ultimately show ?thesis by blast
  qed
qed

theorem stringToUTF8_allocates_length_plus_one_witness:
  "new_events w0 (snd (stringToUTF8 bump_engine ''Player'' w0)) =
     [(LengthBytesUTF8 ''Player'', Inr 6), (Malloc 7, Inr 8),
      (StringToUTF8 ''Player'' 8 7, Inr 0)] \<and>
   fst (stringToUTF8 bump_engine ''Player'' w0) = Inr 8 \<and>
   8 + 6 \<in> buffer 8 7"
  using stringToUTF8_allocates_length_plus_one
          [where eng = bump_engine and str = "''Player''" and w = w0, OF surjective_pairing]
  by (simp add: call_in_defs engine_defs new_events_def buffer_def)

section \<open>Properties of the message call-in\<close>

text \<open>
  The statements below speak of one call and the events it added to the trace:
  \<open>marshalling_returns\<close> says that no call of \<^verbatim>\<open>lengthBytesUTF8\<close>, \<^verbatim>\<open>_malloc\<close> or the
  encoder threw during it, \<open>frees_return\<close> that no \<^verbatim>\<open>_free\<close> did. The entry points may
  return or throw as they like.
\<close>


lemma sendMessage_extends_trace:
  assumes "sendMessage eng gameObject func param w = (r, w')"
  shows "trace w' = trace w @ new_events w w' \<and> console w' = console w"
  using assms
  by (cases param) (auto simp: call_in_defs new_events_def split: sum.splits)

text \<open>
  Not every call dispatches. On the engine with the small heap the allocation for the
  target aborts, the call with the number 42 hands that error on, and no entry point was
  called.
\<close>

theorem sendMessage_dispatches_nothing_when_allocation_throws:
  "fst (sendMessage small_heap_engine ''Player'' ''SetScore'' (JNumber (Num 42)) w0) =
     Inl (Thrown ''RuntimeError: Aborted(OOM)'') \<and>
   entry_calls
     (new_events w0 (snd (sendMessage small_heap_engine ''Player'' ''SetScore'' (JNumber (Num 42)) w0))) =
     []"
  by (simp add: run_number_out_of_memory trace_defs w0_simps)

text \<open>
  Claim C1, as amended. A call during which no marshalling primitive throws dispatches
  exactly one entry point, chosen by the shape of the argument. With no argument the
  events of the call hold the one entry-point call \<^verbatim>\<open>_SendMessage(objPtr, funcPtr)\<close>; with
  a string \<open>s\<close> the one call \<^verbatim>\<open>_SendMessageString(objPtr, funcPtr, paramPtr)\<close>; with a
  number \<open>x\<close> the one call \<^verbatim>\<open>_SendMessageFloat(objPtr, funcPtr, x)\<close>, the number as it
  came. In each case \<open>funcPtr\<close>, \<open>objPtr\<close> and \<open>paramPtr\<close> are the pointers \<^verbatim>\<open>_malloc\<close>
  returned, in that order, and the buffers into which the method name, the target and
  the argument were encoded. A call during which a marshalling primitive throws
  dispatches no entry point.
\<close>

theorem sendMessage_dispatches_by_shape:
  assumes run: "sendMessage eng gameObject func param w = (r, w')"
  shows "(marshalling_returns (new_events w w') \<longrightarrow>
           (param = JUndefined \<longrightarrow>
             (\<exists>funcPtr objPtr.
                encoded (new_events w w') = [(func, funcPtr), (gameObject, objPtr)] \<and>
                allocated (new_events w w') = [funcPtr, objPtr] \<and>
                entry_calls (new_events w w') = [SendMessage objPtr funcPtr])) \<and>
           (\<forall>s. param = JString s \<longrightarrow>
             (\<exists>funcPtr objPtr paramPtr.
                encoded (new_events w w') = [(func, funcPtr), (gameObject, objPtr), (s, paramPtr)] \<and>
                allocated (new_events w w') = [funcPtr, objPtr, paramPtr] \<and>
                entry_calls (new_events w w') = [SendMessageString objPtr funcPtr paramPtr])) \<and>
           (\<forall>x. param = JNumber x \<longrightarrow>
             (\<exists>funcPtr objPtr.
                encoded (new_events w w') = [(func, funcPtr), (gameObject, objPtr)] \<and>
                allocated (new_events w w') = [funcPtr, objPtr] \<and>
                entry_calls (new_events w w') = [SendMessageFloat objPtr funcPtr x]))) \<and>
         (\<not> marshalling_returns (new_events w w') \<longrightarrow>
           entry_calls (new_events w w') = [])"
proof (intro conjI allI impI)
  assume "marshalling_returns (new_events w w')" and "param = JUndefined"
  with run show "\<exists>funcPtr objPtr.
      encoded (new_events w w') = [(func, funcPtr), (gameObject, objPtr)] \<and>
      allocated (new_events w w') = [funcPtr, objPtr] \<and>
      entry_calls (new_events w w') = [SendMessage objPtr funcPtr]"
    by (auto simp: call_in_defs trace_defs split: sum.splits)
next
  fix s assume "marshalling_returns (new_events w w')" and "param = JString s"
  with run show "\<exists>funcPtr objPtr paramPtr.
      encoded (new_events w w') = [(func, funcPtr), (gameObject, objPtr), (s, paramPtr)] \<and>
      allocated (new_events w w') = [funcPtr, objPtr, paramPtr] \<and>
      entry_calls (new_events w w') = [SendMessageString objPtr funcPtr paramPtr]"
    by (auto simp: call_in_defs trace_defs split: sum.splits)
next
  fix x assume "marshalling_returns (new_events w w')" and "param = JNumber x"
  with run show "\<exists>funcPtr objPtr.
      encoded (new_events w w') = [(func, funcPtr), (gameObject, objPtr)] \<and>
      allocated (new_events w w') = [funcPtr, objPtr] \<and>
      entry_calls (new_events w w') = [SendMessageFloat objPtr funcPtr x]"
    by (auto simp: call_in_defs trace_defs split: sum.splits)
next
  assume "\<not> marshalling_returns (new_events w w')"
  with run show "entry_calls (new_events w w') = []"
    by (cases param) (auto simp: call_in_defs trace_defs split: sum.splits)
qed

theorem sendMessage_dispatches_by_shape_witness:
  "marshalling_returns
     (new_events w0 (snd (sendMessage bump_engine ''Player'' ''SetScore'' (JNumber (Num 42)) w0))) \<and>
   encoded (new_events w0 (snd (sendMessage bump_engine ''Player'' ''SetScore'' (JNumber (Num 42)) w0))) =
     [(''SetScore'', 8), (''Player'', 16)] \<and>
   entry_calls
     (new_events w0 (snd (sendMessage bump_engine ''Player'' ''SetScore'' (JNumber (Num 42)) w0))) =
     [SendMessageFloat 16 8 (Num 42)]"
proof -
  let ?w = "snd (sendMessage bump_engine ''Player'' ''SetScore'' (JNumber (Num 42)) w0)"
  have ok: "marshalling_returns (new_events w0 ?w)"
    by (simp add: run_number trace_defs w0_simps)
  from sendMessage_dispatches_by_shape [OF surjective_pairing] ok
  show ?thesis
    by (simp add: run_number trace_defs w0_simps)
qed

text \<open>
  The unsupported-type error and the release are not unconditional. Where the free of
  the null argument slot traps, the call with the argument \<^verbatim>\<open>true\<close> throws what the free
  threw and neither buffer is freed; where the allocation for the target aborts, it
  throws that error and the method buffer is not freed.
\<close>

theorem sendMessage_other_shape_error_can_be_lost:
  "fst (sendMessage strict_free_engine ''Player'' ''SetScore'' (JBoolean True) w0) =
     Inl (Thrown ''RuntimeError: free(0)'') \<and>
   allocated
     (new_events w0 (snd (sendMessage strict_free_engine ''Player'' ''SetScore'' (JBoolean True) w0))) =
     [8, 16] \<and>
   freed
     (new_events w0 (snd (sendMessage strict_free_engine ''Player'' ''SetScore'' (JBoolean True) w0))) =
     [0] \<and>
   fst (sendMessage small_heap_engine ''Player'' ''SetScore'' (JBoolean True) w0) =
     Inl (Thrown ''RuntimeError: Aborted(OOM)'') \<and>
   allocated
     (new_events w0 (snd (sendMessage small_heap_engine ''Player'' ''SetScore'' (JBoolean True) w0))) =
     [8] \<and>
   freed
     (new_events w0 (snd (sendMessage small_heap_engine ''Player'' ''SetScore'' (JBoolean True) w0))) =
     []"
  by (simp add: run_boolean_strict_free run_boolean_out_of_memory trace_defs w0_simps)

text \<open>
  Claim C3, as amended. A call whose argument is neither absent, a string nor a number
  dispatches no entry point, whatever the engine does. When the marshalling of method
  and target and the frees of the call return, the call throws the unsupported-type
  error, and the frees of the call are those of the null argument slot, the target
  buffer and the method buffer.
\<close>

theorem sendMessage_rejects_other_shapes:
  assumes run: "sendMessage eng gameObject func param w = (r, w')"
      and shape: "typeof param \<notin> {''undefined'', ''string'', ''number''}"
  shows "entry_calls (new_events w w') = [] \<and>
         (marshalling_returns (new_events w w') \<and> frees_return (new_events w w') \<longrightarrow>
            r = Inl (Error (''Unsupported parameter type: '' @ typeof param)) \<and>
            (\<exists>funcPtr objPtr.
               encoded (new_events w w') = [(func, funcPtr), (gameObject, objPtr)] \<and>
               allocated (new_events w w') = [funcPtr, objPtr] \<and>
               freed (new_events w w') = [0, objPtr, funcPtr]))"
proof -
  from shape have body: "\<And>objPtr funcPtr v.
      try_block eng objPtr funcPtr param v =
        (Inl (Error (''Unsupported parameter type: '' @ typeof param)), 0, v)"
    by (cases param) simp_all
  from run show ?thesis
    by (auto simp: call_in_defs trace_defs body split: sum.splits)
qed

theorem sendMessage_rejects_other_shapes_witness:
  "typeof (JBoolean True) \<notin> {''undefined'', ''string'', ''number''} \<and>
   marshalling_returns
     (new_events w0 (snd (sendMessage bump_engine ''Player'' ''SetScore'' (JBoolean True) w0))) \<and>
   frees_return
     (new_events w0 (snd (sendMessage bump_engine ''Player'' ''SetScore'' (JBoolean True) w0))) \<and>
   fst (sendMessage bump_engine ''Player'' ''SetScore'' (JBoolean True) w0) =
     Inl (Error ''Unsupported parameter type: boolean'') \<and>
   entry_calls
     (new_events w0 (snd (sendMessage bump_engine ''Player'' ''SetScore'' (JBoolean True) w0))) = [] \<and>
   freed
     (new_events w0 (snd (sendMessage bump_engine ''Player'' ''SetScore'' (JBoolean True) w0))) =
     [0, 16, 8]"
proof -
  let ?w = "snd (sendMessage bump_engine ''Player'' ''SetScore'' (JBoolean True) w0)"
  have shape: "typeof (JBoolean True) \<notin> {''undefined'', ''string'', ''number''}"
    by simp
  have marshal: "marshalling_returns (new_events w0 ?w)"
    by (simp add: run_boolean trace_defs w0_simps)
  have free: "frees_return (new_events w0 ?w)"
    by (simp add: run_boolean trace_defs w0_simps)
  have freed: "freed (new_events w0 ?w) = [0, 16, 8]"
    by (simp add: run_boolean trace_defs w0_simps)
  from sendMessage_rejects_other_shapes [OF surjective_pairing shape] shape marshal free freed
  show ?thesis by simp
qed




text \<open>
  Claim C2. The release is not unconditional. The method and the target are marshalled
  before the \<^verbatim>\<open>try\<close> block, so a throw while the target is marshalled leaves the method
  buffer allocated: on the engine with the small heap the call throws, one pointer was
  handed out, and nothing was freed. The same throw one step later, while the argument
  is marshalled inside the \<^verbatim>\<open>try\<close> block, is followed by the frees of both buffers.
\<close>

theorem sendMessage_leaks_when_allocation_throws:
  "fst (sendMessage small_heap_engine ''Player'' ''SetScore'' JUndefined w0) =
     Inl (Thrown ''RuntimeError: Aborted(OOM)'') \<and>
   allocated (new_events w0 (snd (sendMessage small_heap_engine ''Player'' ''SetScore'' JUndefined w0))) = [8] \<and>
   freed (new_events w0 (snd (sendMessage small_heap_engine ''Player'' ''SetScore'' JUndefined w0))) = [] \<and>
   fst (sendMessage two_buffer_engine ''Player'' ''SetName'' (JString ''hi'') w0) =
     Inl (Thrown ''RuntimeError: Aborted(OOM)'') \<and>
   allocated (new_events w0
     (snd (sendMessage two_buffer_engine ''Player'' ''SetName'' (JString ''hi'') w0))) = [8, 16] \<and>
   freed (new_events w0
     (snd (sendMessage two_buffer_engine ''Player'' ''SetName'' (JString ''hi'') w0))) = [0, 16, 8]"
  by (simp add: run_out_of_memory run_string_out_of_memory trace_defs w0_simps)

text \<open>
  Where no marshalling primitive and no free throws, the pointers passed to \<^verbatim>\<open>_free\<close>
  and the pointers \<^verbatim>\<open>_malloc\<close> returned are the same multiset once the null pointers are
  left out, whether the call returns, throws the unsupported-type error or hands on what
  the entry point threw.
\<close>

lemma frees_pair_with_allocations:
  assumes run: "sendMessage eng gameObject func param w = (r, w')"
      and marshal: "marshalling_returns (new_events w w')"
      and free: "frees_return (new_events w w')"
  shows "mset (filter (\<lambda>p. p \<noteq> 0) (freed (new_events w w'))) =
         mset (filter (\<lambda>p. p \<noteq> 0) (allocated (new_events w w')))"
proof (cases param)
  case JUndefined
  with run marshal free show ?thesis
    by (auto simp: call_in_defs trace_defs split: sum.splits)
next
  case (JString s)
  with run marshal free show ?thesis
    by (auto simp: call_in_defs trace_defs split: sum.splits)
next
  case (JNumber x)
  with run marshal free show ?thesis
    by (auto simp: call_in_defs trace_defs split: sum.splits)
qed (use run marshal free in \<open>auto simp: call_in_defs trace_defs split: sum.splits\<close>)

section \<open>Properties of the loader\<close>

text \<open>Whether \<^verbatim>\<open>setupAudio\<close> throws, and what, is decided by the host alone.\<close>

lemma setupAudio_outcome:
  "fst (setupAudio h this w) = fst (setupAudio h this' w')"
  by (simp add: setupAudio_def split: option.splits sum.splits)

text \<open>Outside a worker the initialization that gets as far as building the configuration
  object leaves exactly the mount hook on its hook list.\<close>

lemma page_registers_mount_hook:
  assumes "\<not> isWorker (environment this)"
      and "initialize h this w = (r, this', w')"
      and "getScriptDirectory h this = Inr d"
  shows "preRun (Module this') = Some [FileSystemMountHook]"
  using assms
  by (auto simp: loader_defs split: option.splits sum.splits if_splits)

text \<open>
  Claim C4. The \<^verbatim>\<open>ready\<close> promise of the configuration object is created pending, and
  nothing in the loader settles it: \<^verbatim>\<open>createModule\<close> stores its resolve and reject
  functions on the object that \<^verbatim>\<open>this.Module\<close> held before, which is then replaced, and
  no line calls them. On a page the initialization completes and sets the ready flag,
  and the promise is still pending; on a page whose audio context cannot be built the
  initialization fails, and the promise is still pending. Neither configuration
  object holds a settle function.
\<close>

theorem ready_promise_left_pending:
  "fst (constructor page_host w0) = Inr () \<and>
   isReady (fst (snd (constructor page_host w0))) = True \<and>
   ready (Module (fst (snd (constructor page_host w0)))) = Some Pending \<and>
   readyPromiseResolve (Module (fst (snd (constructor page_host w0)))) = None \<and>
   fst (constructor mute_page_host w0) =
     Inl (UnityError ''Initialization failed'' (Thrown ''NotSupportedError'')) \<and>
   ready (Module (fst (snd (constructor mute_page_host w0)))) = Some Pending \<and>
   readyPromiseReject (Module (fst (snd (constructor mute_page_host w0)))) = None"
  by (simp add: construct_page construct_mute_page)

text \<open>On no host does the constructor leave a settled \<^verbatim>\<open>ready\<close> promise.\<close>

lemma ready_promise_never_settled:
  "ready (Module (fst (snd (constructor h w)))) = None \<or>
   ready (Module (fst (snd (constructor h w)))) = Some Pending"
  by (auto simp: constructor_def fresh_def getScriptDirectory_def loader_defs
        split: option.splits sum.splits if_splits)

text \<open>
  What does settle is the promise of \<^verbatim>\<open>initialize()\<close>, which the constructor drops. It
  is fulfilled exactly when the script path is found and the audio context is built (no
  other step can fail), and rejected with \<^verbatim>\<open>UnityError("Initialization failed", cause)\<close>
  when either of them throws \<open>cause\<close>.
\<close>

lemma initialize_outcome:
  assumes run: "initialize h this w = (r, this', w')"
  shows "(settled r = Fulfilled \<longleftrightarrow>
            (\<exists>d. getScriptDirectory h this = Inr d) \<and> fst (setupAudio h this w) = Inr ()) \<and>
         (\<forall>e. getScriptDirectory h this = Inl e \<longrightarrow>
            settled r = Rejected (UnityError ''Initialization failed'' e)) \<and>
         (\<forall>d e. getScriptDirectory h this = Inr d \<longrightarrow> fst (setupAudio h this w) = Inl e \<longrightarrow>
            settled r = Rejected (UnityError ''Initialization failed'' e)) \<and>
         isReady this' = (isReady this \<or> settled r = Fulfilled) \<and>
         (\<forall>d. getScriptDirectory h this = Inr d \<longrightarrow> ready (Module this') = Some Pending)"
proof (cases "getScriptDirectory h this")
  case (Inl e)
  with run show ?thesis
    by (auto simp: initialize_def initialize_steps_def)
next
  case (Inr d)
  with run show ?thesis
    by (auto simp: loader_defs split: option.splits sum.splits if_splits)
qed

text \<open>
  A canvas that yields no context makes the stored factory throw, and the initialization
  of a page is fulfilled all the same: the factory is stored, not called.
\<close>

theorem initialize_fulfils_without_webgl:
  "createContext dead_canvas () = Inl (Error ''WebGL context creation failed'') \<and>
   fst (constructor page_host w0) = Inr () \<and>
   isReady (fst (snd (constructor page_host w0))) = True \<and>
   GL (Module (fst (snd (constructor page_host w0)))) = Some GLUtils"
  by (simp add: construct_page createContext_def dead_canvas_def)

text \<open>
  Claim C5, as amended. The stored \<^verbatim>\<open>createContext\<close> throws
  \<^verbatim>\<open>Error("WebGL context creation failed")\<close> when the canvas yields no context and
  returns the context otherwise. \<^verbatim>\<open>initialize()\<close> stores the factory as soon as the
  configuration object exists, and whether its promise is fulfilled depends on the script
  path and the audio context alone.
\<close>

theorem createContext_fails_loudly:
  assumes run: "initialize h this w = (r, this', w')"
  shows "(canvas ''webgl'' attributes = None \<longrightarrow>
            createContext canvas attributes = Inl (Error ''WebGL context creation failed'')) \<and>
         (\<forall>c. canvas ''webgl'' attributes = Some c \<longrightarrow> createContext canvas attributes = Inr c) \<and>
         (\<forall>d. getScriptDirectory h this = Inr d \<longrightarrow> GL (Module this') = Some GLUtils) \<and>
         (r = Inr ()) =
           ((\<exists>d. getScriptDirectory h this = Inr d) \<and> fst (setupAudio h this w) = Inr ())"
proof (intro conjI allI impI)
  assume "canvas ''webgl'' attributes = None"
  then show "createContext canvas attributes = Inl (Error ''WebGL context creation failed'')"
    by (simp add: createContext_def)
next
  fix c assume "canvas ''webgl'' attributes = Some c"
  then show "createContext canvas attributes = Inr c"
    by (simp add: createContext_def)
next
  fix d assume "getScriptDirectory h this = Inr d"
  with run show "GL (Module this') = Some GLUtils"
    by (auto simp: loader_defs split: option.splits sum.splits if_splits)
next
  from run
  show "(r = Inr ()) =
          ((\<exists>d. getScriptDirectory h this = Inr d) \<and> fst (setupAudio h this w) = Inr ())"
    by (cases "getScriptDirectory h this")
       (auto simp: loader_defs split: option.splits sum.splits if_splits)
qed

theorem createContext_fails_loudly_witness:
  "dead_canvas ''webgl'' () = None \<and>
   createContext dead_canvas () = Inl (Error ''WebGL context creation failed'') \<and>
   live_canvas ''webgl'' () = Some 7 \<and>
   createContext live_canvas () = Inr 7 \<and>
   getScriptDirectory page_host (fresh page_host) = Inr ''Build/build.framework.js'' \<and>
   GL (Module (fst (snd (constructor page_host w0)))) = Some GLUtils"
proof -
  have dead: "dead_canvas ''webgl'' () = None"
    by (simp add: dead_canvas_def)
  have live: "live_canvas ''webgl'' () = Some 7"
    by (simp add: live_canvas_def)
  have dir: "getScriptDirectory page_host (fresh page_host) = Inr ''Build/build.framework.js''"
    by (simp add: host_defs)
  from createContext_fails_loudly
         [where h = page_host and this = "fresh page_host" and w = w0
            and canvas = dead_canvas and attributes = "()", OF triple] dead dir
  have "createContext dead_canvas () = Inl (Error ''WebGL context creation failed'')"
    and "GL (Module (fst (snd (initialize page_host (fresh page_host) w0)))) = Some GLUtils"
    by blast+
  moreover
  from createContext_fails_loudly
         [where h = page_host and this = "fresh page_host" and w = w0
            and canvas = live_canvas and attributes = "()", OF triple] live
  have "createContext live_canvas () = Inr 7"
    by blast
  ultimately show ?thesis
    using dead live dir by (simp add: constructor_def)
qed

text \<open>
  Claim C6. On a host where none of the three flags holds the script path is the empty
  string, as the claim says. The initialization does not complete, though: with no page
  there is no \<^verbatim>\<open>window\<close>, \<^verbatim>\<open>setupAudio\<close> reads it all the same, and the promise of
  \<^verbatim>\<open>initialize()\<close> is rejected with the ready flag unset.
\<close>

theorem initialize_fails_without_window:
  assumes "isWeb (detectEnvironment h) = False"
      and "isWorker (detectEnvironment h) = False"
      and "isNode (detectEnvironment h) = False"
  shows "getScriptDirectory h (fresh h) = Inr [] \<and>
         fst (constructor h w) =
           Inl (UnityError ''Initialization failed'' (ReferenceError ''window is not defined'')) \<and>
         isReady (fst (snd (constructor h w))) = False"
proof -
  from assms have "window h = None"
    and "environment (fresh h) = \<lparr>isWeb = False, isWorker = False, isNode = False\<rparr>"
    by (simp_all add: detectEnvironment_def fresh_def)
  then show ?thesis
    by (simp add: constructor_def getScriptDirectory_def loader_defs fresh_def)
qed

theorem initialize_fails_without_window_witness:
  "isWeb (detectEnvironment bare_host) = False \<and>
   isWorker (detectEnvironment bare_host) = False \<and>
   isNode (detectEnvironment bare_host) = False \<and>
   getScriptDirectory bare_host (fresh bare_host) = Inr [] \<and>
   fst (constructor bare_host w0) =
     Inl (UnityError ''Initialization failed'' (ReferenceError ''window is not defined'')) \<and>
   isReady (fst (snd (constructor bare_host w0))) = False"
proof -
  have flags: "isWeb (detectEnvironment bare_host) = False"
    "isWorker (detectEnvironment bare_host) = False"
    "isNode (detectEnvironment bare_host) = False"
    by (simp_all add: detectEnvironment_def bare_host_def)
  from initialize_fails_without_window [OF flags, of w0] flags
  show ?thesis by simp
qed

text \<open>
  Claim C8. When the worker flag is set, \<^verbatim>\<open>setupFilesystem\<close> leaves the loader as it is,
  the initialization makes no call into the engine, and afterwards the hook list of the
  configuration object is empty (where the script path could not be found, no
  configuration object was built and the old one is untouched).
\<close>

theorem worker_registers_no_mount_hook:
  assumes worker: "isWorker (environment this)"
      and run: "initialize h this w = (r, this', w')"
  shows "setupFilesystem this = Inr this \<and>
         trace w' = trace w \<and>
         (case getScriptDirectory h this of
            Inr d \<Rightarrow> preRun (Module this') = Some []
          | Inl e \<Rightarrow> Module this' = Module this)"
proof (intro conjI)
  from worker show "setupFilesystem this = Inr this"
    by (simp add: setupFilesystem_def)
next
  from run show "trace w' = trace w"
    by (auto simp: loader_defs split: option.splits sum.splits if_splits)
next
  from worker run
  show "case getScriptDirectory h this of
          Inr d \<Rightarrow> preRun (Module this') = Some []
        | Inl e \<Rightarrow> Module this' = Module this"
    by (auto simp: loader_defs split: option.splits sum.splits if_splits)
qed

theorem worker_registers_no_mount_hook_witness:
  "isWorker (environment (fresh worker_host)) \<and>
   setupFilesystem (fresh worker_host) = Inr (fresh worker_host) \<and>
   getScriptDirectory worker_host (fresh worker_host) = Inr [] \<and>
   preRun (Module (fst (snd (constructor worker_host w0)))) = Some [] \<and>
   trace (snd (snd (constructor worker_host w0))) = []"
proof -
  have worker: "isWorker (environment (fresh worker_host))"
    by (simp add: host_defs)
  have dir: "getScriptDirectory worker_host (fresh worker_host) = Inr []"
    by (simp add: host_defs)
  from worker_registers_no_mount_hook [OF worker triple, of worker_host w0] worker dir
  show ?thesis
    by (simp add: constructor_def [symmetric] w0_simps)
qed

section \<open>Properties of the filesystem mount hook\<close>

text \<open>
  Claim C7. Whatever the outcome of the sync, the callback makes exactly one call into
  the engine, \<^verbatim>\<open>removeRunDependency("JS_FileSystem_Mount")\<close>. A failed sync adds one
  warning to the console and nothing else; the callback throws only if that engine call
  does. After a hook that ran to its end, the run-dependency calls of hook and callback
  together are the registration of the token followed by its removal.
\<close>

theorem sync_outcome_clears_run_dependency:
  assumes cb: "syncfs_callback eng outcome v = (r, v')"
  shows "map fst (new_events v v') = [RemoveRunDependency ''JS_FileSystem_Mount''] \<and>
         console v' = console v @
           (case outcome of None \<Rightarrow> [] | Some e \<Rightarrow> [ConsoleWarn ''IndexedDB unavailable:'' e]) \<and>
         (r = Inr ()) = list_all returned (new_events v v') \<and>
         (run_hook eng FileSystemMountHook w = (Inr (), v) \<longrightarrow>
            run_dependency_calls (new_events w v') =
              [AddRunDependency ''JS_FileSystem_Mount'', RemoveRunDependency ''JS_FileSystem_Mount''])"
proof -
  let ?res = "eng (trace v) (RemoveRunDependency ''JS_FileSystem_Mount'')"
  from cb have tr: "trace v' = trace v @ [(RemoveRunDependency ''JS_FileSystem_Mount'', ?res)]"
    by (cases outcome) (auto simp: syncfs_callback_def invoke_def Let_def split: sum.splits)
  from cb have con: "console v' = console v @
      (case outcome of None \<Rightarrow> [] | Some e \<Rightarrow> [ConsoleWarn ''IndexedDB unavailable:'' e])"
    by (cases outcome) (auto simp: syncfs_callback_def invoke_def Let_def split: sum.splits)
  from cb have res: "(r = Inr ()) = returned (RemoveRunDependency ''JS_FileSystem_Mount'', ?res)"
    by (cases outcome) (auto simp: syncfs_callback_def invoke_def Let_def split: sum.splits)
  have hook: "run_dependency_calls (new_events w v') =
        [AddRunDependency ''JS_FileSystem_Mount'', RemoveRunDependency ''JS_FileSystem_Mount'']"
    if "run_hook eng FileSystemMountHook w = (Inr (), v)"
    using that tr
    by (auto simp: run_hook_def invoke_def Let_def trace_defs split: sum.splits)
  from tr con res hook show ?thesis
    by (simp add: new_events_def)
qed

theorem sync_outcome_clears_run_dependency_witness:
  "run_hook bump_engine FileSystemMountHook w0 =
     (Inr (), snd (run_hook bump_engine FileSystemMountHook w0)) \<and>
   fst (syncfs_callback bump_engine (Some (Thrown ''InvalidStateError''))
          (snd (run_hook bump_engine FileSystemMountHook w0))) = Inr () \<and>
   console (snd (syncfs_callback bump_engine (Some (Thrown ''InvalidStateError''))
          (snd (run_hook bump_engine FileSystemMountHook w0)))) =
     [ConsoleWarn ''IndexedDB unavailable:'' (Thrown ''InvalidStateError'')] \<and>
   run_dependency_calls (new_events w0
      (snd (syncfs_callback bump_engine (Some (Thrown ''InvalidStateError''))
          (snd (run_hook bump_engine FileSystemMountHook w0))))) =
     [AddRunDependency ''JS_FileSystem_Mount'', RemoveRunDependency ''JS_FileSystem_Mount'']"
proof -
  let ?w1 = "snd (run_hook bump_engine FileSystemMountHook w0)"
  have hook: "run_hook bump_engine FileSystemMountHook w0 = (Inr (), ?w1)"
    by (simp add: hook_run)
  have finished: "fst (syncfs_callback bump_engine (Some (Thrown ''InvalidStateError'')) ?w1) = Inr ()"
    by (simp add: hook_run syncfs_callback_def invoke_def Let_def engine_defs)
  from sync_outcome_clears_run_dependency
         [where eng = bump_engine and outcome = "Some (Thrown ''InvalidStateError'')"
            and v = ?w1 and w = w0, OF surjective_pairing]
       hook finished
  show ?thesis
    by (simp add: hook_run w0_simps)
qed

end
